theory Spec2Isabelle
  imports Main "HOL-Library.Char_ord"
begin

section \<open>Values shared by the proxy and its stages\<close>

text \<open>
  Byte buffers and Go strings are lists of 8-bit characters.  A Go slice is a list; the
  nil slice and the empty slice are both \<open>[]\<close> (the code only ever asks for
  \<open>len\<close>).
\<close>

type_synonym bytes = string

subsection \<open>Decimal formatting (\<open>strconv.Itoa\<close>, \<open>%d\<close>) for lengths\<close>

definition digit :: "nat \<Rightarrow> char" where
  "digit d = ''0123456789'' ! d"

function Itoa :: "nat \<Rightarrow> string" where
  "Itoa n = (if n < 10 then [digit n] else Itoa (n div 10) @ [digit (n mod 10)])"
  by pat_completeness auto
termination
  by (relation "measure id") auto

declare Itoa.simps [simp del]

definition Join :: "string list \<Rightarrow> string \<Rightarrow> string" where
  "Join elems sep = (case elems of [] \<Rightarrow> [] | x # xs \<Rightarrow> x @ concat (map (\<lambda>e. sep @ e) xs))"

text \<open>\<open>strings.Split\<close> at a one-byte separator: never an empty list.\<close>

fun Split :: "string \<Rightarrow> char \<Rightarrow> string list" where
  "Split [] sep = [[]]"
| "Split (c # cs) sep =
     (if c = sep then [] # Split cs sep
      else (case Split cs sep of [] \<Rightarrow> [[c]] | p # ps \<Rightarrow> (c # p) # ps))"

subsection \<open>Go error values\<close>

text \<open>
  An \<open>error\<close> that is not nil is either a plain error carrying its text (what
  \<open>fmt.Errorf\<close> and the standard library return) or a \<open>*multierror.Error\<close> holding
  a list of errors.  A possibly-nil \<open>error\<close> is an \<open>err option\<close>.  The text of a
  multi-error is the one of go-multierror's default \<open>ListFormatFunc\<close>.
\<close>

datatype err = errorString string | multierror "err list"

definition ListFormatFunc :: "string list \<Rightarrow> string" where
  "ListFormatFunc es =
     (if length es = 1
      then ''1 error occurred:'' @ [CHR 0x0A, CHR 0x09] @ ''* '' @ hd es @ [CHR 0x0A, CHR 0x0A]
      else Itoa (length es) @ '' errors occurred:'' @ [CHR 0x0A, CHR 0x09]
           @ Join (map (\<lambda>e. ''* '' @ e) es) [CHR 0x0A, CHR 0x09] @ [CHR 0x0A, CHR 0x0A])"

fun Error :: "err \<Rightarrow> string" where
  "Error (errorString s) = s"
| "Error (multierror es) = ListFormatFunc (map Error es)"

text \<open>\<open>fmt.Errorf(prefix + "%w", e)\<close>: a plain error whose text is the prefix followed by
  the text of \<open>e\<close>.\<close>

definition Errorf_w :: "string \<Rightarrow> err \<Rightarrow> err" where
  "Errorf_w prefix e = errorString (prefix @ Error e)"

text \<open>
  \<open>multierror.Append(err, errs...)\<close>: the result is always a multi-error.  A
  multi-error first argument is extended in place; any other non-nil first argument
  becomes the first entry.  Every appended multi-error is flattened by one level.
\<close>

fun flatten :: "err \<Rightarrow> err list" where
  "flatten (multierror es) = es"
| "flatten e = [e]"

definition Append :: "err option \<Rightarrow> err list \<Rightarrow> err" where
  "Append e errs =
     (case e of
        Some (multierror es) \<Rightarrow> multierror (es @ concat (map flatten errs))
      | Some (errorString s) \<Rightarrow> multierror (concat (map flatten (errorString s # errs)))
      | None \<Rightarrow> multierror (concat (map flatten errs)))"

section \<open>Requests, responses and the request-scoped context\<close>

record ACLToken =
  ACLToken_AccessorID :: string
  ACLToken_fields :: string

record RequestContext =
  ClientIP :: string
  AccessorID :: string
  TokenInfo :: "ACLToken option"

text \<open>
  The values the handlers put on the request's context.  \<open>ctxValidationError\<close> is
  stored on every Validate request, also when the error is nil: \<open>Some None\<close> is a
  stored nil, for which the type assertion \<open>.(error)\<close> fails like for a missing key.
\<close>

record ctx =
  request_context :: "RequestContext option"
  ctxWarnings :: "err list option"
  ctxValidationError :: "err option option"

record request =
  Method :: string
  URL_Path :: string
  Header :: "string \<rightharpoonup> string"
  RemoteAddr :: string
  Body :: bytes
  ContentLength :: int
  Context :: ctx

text \<open>What the upstream answers, and the \<open>*http.Response\<close> the proxy's response hook
  sees: the answer together with the request that was sent.\<close>

record reply =
  StatusCode :: nat
  Status :: string
  resp_Header :: "string \<rightharpoonup> string"
  resp_Body :: bytes
  resp_ContentLength :: int

record response = reply +
  Request :: request

text \<open>\<open>Header.Get\<close>: the empty string for a missing key.\<close>

definition Get :: "(string \<rightharpoonup> string) \<Rightarrow> string \<Rightarrow> string" where
  "Get h k = (case h k of None \<Rightarrow> [] | Some v \<Rightarrow> v)"

section \<open>Route classifier\<close>

subsection \<open>Regular expressions\<close>

text \<open>
  The fragment of RE2 syntax the two path patterns use, matched with Brzozowski
  derivatives.  A character class is its list of ranges in the order written in the
  pattern.  Both patterns are anchored with \<open>^\<close> and \<open>$\<close> (no multi-line flag), so
  \<open>MatchString\<close> holds exactly when the whole string is in the language.
\<close>

datatype regex =
  Empty | Eps | Chr char | Cls "(char \<times> char) list"
  | Cat regex regex | Alt regex regex | Star regex

fun in_class :: "(char \<times> char) list \<Rightarrow> char \<Rightarrow> bool" where
  "in_class [] c = False"
| "in_class ((lo, hi) # rs) c = ((lo \<le> c \<and> c \<le> hi) \<or> in_class rs c)"

fun Lit :: "string \<Rightarrow> regex" where
  "Lit [] = Eps"
| "Lit (c # cs) = Cat (Chr c) (Lit cs)"

definition Plus :: "regex \<Rightarrow> regex" where
  "Plus r = Cat r (Star r)"

fun nullable :: "regex \<Rightarrow> bool" where
  "nullable Empty = False"
| "nullable Eps = True"
| "nullable (Chr c) = False"
| "nullable (Cls rs) = False"
| "nullable (Cat r s) = (nullable r \<and> nullable s)"
| "nullable (Alt r s) = (nullable r \<or> nullable s)"
| "nullable (Star r) = True"

fun deriv :: "char \<Rightarrow> regex \<Rightarrow> regex" where
  "deriv c Empty = Empty"
| "deriv c Eps = Empty"
| "deriv c (Chr d) = (if c = d then Eps else Empty)"
| "deriv c (Cls rs) = (if in_class rs c then Eps else Empty)"
| "deriv c (Cat r s) =
     (if nullable r then Alt (Cat (deriv c r) s) (deriv c s) else Cat (deriv c r) s)"
| "deriv c (Alt r s) = Alt (deriv c r) (deriv c s)"
| "deriv c (Star r) = Cat (deriv c r) (Star r)"

fun MatchString :: "regex \<Rightarrow> string \<Rightarrow> bool" where
  "MatchString r [] = nullable r"
| "MatchString r (c # cs) = MatchString (deriv c r) cs"

subsection \<open>The patterns of the source\<close>

text \<open>
  \<^verbatim>\<open>^/v1/job/[a-zA-Z]+[a-z-Z0-9\-]*$\<close> and the same with \<^verbatim>\<open>/plan\<close> before the
  \<open>$\<close>.  In the second class the \<open>-\<close> after \<open>a-z\<close> is a literal hyphen and \<open>Z\<close> a
  single letter: the class is \<open>a-z\<close>, \<open>-\<close>, \<open>Z\<close>, \<open>0-9\<close>, \<open>-\<close>.
\<close>

definition jobPathRegex :: regex where
  "jobPathRegex =
     Cat (Lit ''/v1/job/'')
       (Cat (Plus (Cls [(CHR ''a'', CHR ''z''), (CHR ''A'', CHR ''Z'')]))
            (Star (Cls [(CHR ''a'', CHR ''z''), (CHR ''-'', CHR ''-''), (CHR ''Z'', CHR ''Z''),
                        (CHR ''0'', CHR ''9''), (CHR ''-'', CHR ''-'')])))"

definition jobPlanPathRegex :: regex where
  "jobPlanPathRegex =
     Cat (Lit ''/v1/job/'')
       (Cat (Plus (Cls [(CHR ''a'', CHR ''z''), (CHR ''A'', CHR ''Z'')]))
         (Cat (Star (Cls [(CHR ''a'', CHR ''z''), (CHR ''-'', CHR ''-''), (CHR ''Z'', CHR ''Z''),
                          (CHR ''0'', CHR ''9''), (CHR ''-'', CHR ''-'')]))
              (Lit ''/plan'')))"

definition isCreate :: "request \<Rightarrow> bool" where
  "isCreate r = ((Method r = ''PUT'' \<or> Method r = ''POST'') \<and> URL_Path r = ''/v1/jobs'')"

definition isUpdate :: "request \<Rightarrow> bool" where
  "isUpdate r =
     ((Method r = ''PUT'' \<or> Method r = ''POST'') \<and> MatchString jobPathRegex (URL_Path r))"

definition isRegister :: "request \<Rightarrow> bool" where
  "isRegister r = (isCreate r \<or> isUpdate r)"

definition isPlan :: "request \<Rightarrow> bool" where
  "isPlan r =
     ((Method r = ''PUT'' \<or> Method r = ''POST'') \<and> MatchString jobPlanPathRegex (URL_Path r))"

definition isValidate :: "request \<Rightarrow> bool" where
  "isValidate r =
     ((Method r = ''PUT'' \<or> Method r = ''POST'') \<and> URL_Path r = ''/v1/validate/job'')"

subsection \<open>The classifier as the specification words it\<close>

text \<open>
  \<^verbatim>\<open>^/v1/job/[A-Za-z][A-Za-z0-9-]*$\<close> for Register and
  \<^verbatim>\<open>^/v1/job/[A-Za-z][A-Za-z0-9-]*/plan$\<close> for Plan.
\<close>

definition spec_jobPathRegex :: regex where
  "spec_jobPathRegex =
     Cat (Lit ''/v1/job/'')
       (Cat (Cls [(CHR ''A'', CHR ''Z''), (CHR ''a'', CHR ''z'')])
            (Star (Cls [(CHR ''A'', CHR ''Z''), (CHR ''a'', CHR ''z''),
                        (CHR ''0'', CHR ''9''), (CHR ''-'', CHR ''-'')])))"

definition spec_jobPlanPathRegex :: regex where
  "spec_jobPlanPathRegex =
     Cat (Lit ''/v1/job/'')
       (Cat (Cls [(CHR ''A'', CHR ''Z''), (CHR ''a'', CHR ''z'')])
         (Cat (Star (Cls [(CHR ''A'', CHR ''Z''), (CHR ''a'', CHR ''z''),
                          (CHR ''0'', CHR ''9''), (CHR ''-'', CHR ''-'')]))
              (Lit ''/plan'')))"

definition spec_isRegister :: "request \<Rightarrow> bool" where
  "spec_isRegister r =
     ((Method r = ''PUT'' \<or> Method r = ''POST'')
      \<and> (URL_Path r = ''/v1/jobs'' \<or> MatchString spec_jobPathRegex (URL_Path r)))"

definition spec_isPlan :: "request \<Rightarrow> bool" where
  "spec_isPlan r =
     ((Method r = ''PUT'' \<or> Method r = ''POST'')
      \<and> MatchString spec_jobPlanPathRegex (URL_Path r))"

section \<open>Webhook stages\<close>

text \<open>
  A function either returns or panics (a nil dereference); a panic is a result of its
  own, never a returned error.
\<close>

datatype 'a outcome = Returned 'a | Panic

text \<open>The pipeline's unit of work.  \<open>Job\<close> is a pointer in the source: \<open>None\<close> is nil.\<close>

record 'job Payload =
  Job :: "'job option"
  Payload_Context :: "RequestContext option"

text \<open>An outbound HTTP request; \<open>'d\<close> is the type of encoded documents.\<close>

record 'd out_request =
  out_Method :: string
  out_URL :: string
  out_Header :: "string \<rightharpoonup> string"
  out_Body :: 'd

text \<open>
  What a webhook stage calls outside the repository: \<open>json.Marshal\<close> of the payload,
  the check of method and URL that \<open>http.NewRequest\<close> makes, and the HTTP exchange
  (the source reads the reply's body whatever its status).
\<close>

record ('job, 'd) webhook_io =
  Marshal_Payload :: "'job Payload \<Rightarrow> err + 'd"
  NewRequest_check :: "string \<Rightarrow> string \<Rightarrow> err option"
  Do :: "'d out_request \<Rightarrow> err + bytes"

definition NewRequest :: "('job, 'd, 'z) webhook_io_scheme \<Rightarrow> string \<Rightarrow> string \<Rightarrow> 'd
    \<Rightarrow> err + 'd out_request" where
  "NewRequest io m url body =
     (case NewRequest_check io m url of
        Some e \<Rightarrow> Inl e
      | None \<Rightarrow> Inr \<lparr>out_Method = m, out_URL = url, out_Header = Map.empty, out_Body = body\<rparr>)"

text \<open>The context headers, set the same way by the validator and by the mutator; the
  keys are in the canonical form in which \<open>Header.Set\<close> stores them.\<close>

definition context_headers :: "RequestContext option \<Rightarrow> 'd out_request \<Rightarrow> 'd out_request" where
  "context_headers c req =
     (case c of
        None \<Rightarrow> req
      | Some rc \<Rightarrow>
          (let req1 = (if ClientIP rc \<noteq> []
                       then req\<lparr>out_Header := (out_Header req)
                              (''X-Forwarded-For'' \<mapsto> ClientIP rc, ''Nacp-Client-Ip'' \<mapsto> ClientIP rc)\<rparr>
                       else req)
           in if AccessorID rc \<noteq> []
              then req1\<lparr>out_Header := (out_Header req1)(''Nacp-Accessor-Id'' \<mapsto> AccessorID rc)\<rparr>
              else req1))"

subsection \<open>Webhook validator\<close>

text \<open>\<open>WebhookValidator\<close> and \<open>JsonPatchWebhookMutator\<close> hold the same fields (the
  endpoint as the text of its URL, the HTTP method as \<open>stage_method\<close>); the logger is
  left out.\<close>

record webhook_stage =
  endpoint :: string
  stage_method :: string
  name :: string

record validationWebhookResponse =
  validation_Errors :: "string list"
  validation_Warnings :: "string list"

record ('job, 'd) validator_io = "('job, 'd) webhook_io" +
  Decode_validation :: "bytes \<Rightarrow> err + validationWebhookResponse"

text \<open>
  \<open>Validate\<close> returns (warnings, error).  With a non-empty \<open>errors\<close> list it first logs
  \<open>payload.Job.ID\<close>, which panics on a nil job.
\<close>

definition Validate :: "('job, 'd) validator_io \<Rightarrow> webhook_stage \<Rightarrow> 'job Payload
    \<Rightarrow> (err list \<times> err option) outcome" where
  "Validate io w payload =
     (case Marshal_Payload io payload of
        Inl e \<Rightarrow> Returned ([], Some e)
      | Inr data \<Rightarrow>
     (case NewRequest io (stage_method w) (endpoint w) data of
        Inl e \<Rightarrow> Returned ([], Some e)
      | Inr req \<Rightarrow>
     (case Do io (context_headers (Payload_Context payload) req) of
        Inl e \<Rightarrow> Returned ([], Some e)
      | Inr body \<Rightarrow>
     (case Decode_validation io body of
        Inl e \<Rightarrow> Returned ([], Some e)
      | Inr valdationResult \<Rightarrow>
          if length (validation_Errors valdationResult) > 0
          then (case Job payload of
                  None \<Rightarrow> Panic
                | Some job \<Rightarrow>
                    Returned ([], Some (foldl (\<lambda>oneError e. Append (Some oneError) [errorString e])
                                         (multierror []) (validation_Errors valdationResult))))
          else Returned (map errorString (validation_Warnings valdationResult), None)))))"

subsection \<open>JSON documents and the job\<close>

datatype json =
  JNull | JBool bool | JNumber int | JString string
  | JArray "json list" | JObject "(string \<times> json) list"

text \<open>
  \<open>api.Job\<close> belongs to the orchestrator's client library.  Of its schema the model keeps
  the two fields the proxy's data model names: \<open>ID\<close> (a string pointer) and \<open>Meta\<close> (a
  string map, kept as an association list); no field of the schema is called \<open>job\<close> or
  \<open>context\<close>.
\<close>

record Job =
  ID :: "string option"
  Meta :: "(string \<times> string) list option"

definition Marshal_Job :: "Job \<Rightarrow> json" where
  "Marshal_Job j =
     JObject [(''ID'', case ID j of None \<Rightarrow> JNull | Some s \<Rightarrow> JString s),
              (''Meta'', case Meta j of None \<Rightarrow> JNull
                         | Some m \<Rightarrow> JObject (map (\<lambda>(k, v). (k, JString v)) m))]"

definition Marshal_RequestContext :: "RequestContext \<Rightarrow> json" where
  "Marshal_RequestContext c =
     JObject [(''clientIP'', JString (ClientIP c)), (''accessorID'', JString (AccessorID c)),
              (''tokenInfo'', case TokenInfo c of None \<Rightarrow> JNull
                              | Some t \<Rightarrow> JObject [(''AccessorID'', JString (ACLToken_AccessorID t))])]"

text \<open>
  Modelled from the spec: the declaration of \<open>types.Payload\<close> is not among the sources.
  The specification gives the payload the fields \<open>job\<close> and \<open>context\<close> and says the
  request body of a webhook is the JSON encoding of the payload (job + context).
\<close>

definition Marshal_Payload_json :: "Job Payload \<Rightarrow> json" where
  "Marshal_Payload_json p =
     JObject [(''job'', case Job p of None \<Rightarrow> JNull | Some j \<Rightarrow> Marshal_Job j),
              (''context'', case Payload_Context p of None \<Rightarrow> JNull
                            | Some c \<Rightarrow> Marshal_RequestContext c)]"

text \<open>
  \<open>json.Unmarshal\<close> into a zero \<open>api.Job\<close>: the document is an object (or
  \<open>null\<close>, which changes nothing); a member is stored in the field whose name it
  matches without regard to case, members that match no field are dropped, a member of
  the wrong type is an error.
\<close>

definition lower :: "char \<Rightarrow> char" where
  "lower c =
     (case map_of (zip ''ABCDEFGHIJKLMNOPQRSTUVWXYZ'' ''abcdefghijklmnopqrstuvwxyz'') c of
        None \<Rightarrow> c
      | Some l \<Rightarrow> l)"

definition EqualFold :: "string \<Rightarrow> string \<Rightarrow> bool" where
  "EqualFold s t = (map lower s = map lower t)"

fun upsert :: "string \<Rightarrow> string \<Rightarrow> (string \<times> string) list \<Rightarrow> (string \<times> string) list" where
  "upsert k v [] = [(k, v)]"
| "upsert k v ((k', v') # m) = (if k = k' then (k, v) # m else (k', v') # upsert k v m)"

fun Unmarshal_Meta :: "(string \<times> json) list \<Rightarrow> (string \<times> string) list
    \<Rightarrow> err + (string \<times> string) list" where
  "Unmarshal_Meta [] m = Inr m"
| "Unmarshal_Meta ((k, JString v) # kvs) m = Unmarshal_Meta kvs (upsert k v m)"
| "Unmarshal_Meta ((k, JNull) # kvs) m = Unmarshal_Meta kvs (upsert k [] m)"
| "Unmarshal_Meta ((k, v) # kvs) m =
     Inl (errorString ''json: cannot unmarshal value into Go struct field Job.Meta of type string'')"

fun Unmarshal_members :: "(string \<times> json) list \<Rightarrow> Job \<Rightarrow> err + Job" where
  "Unmarshal_members [] j = Inr j"
| "Unmarshal_members ((k, v) # kvs) j =
     (if EqualFold k ''ID'' then
        (case v of
           JNull \<Rightarrow> Unmarshal_members kvs (j\<lparr>ID := None\<rparr>)
         | JString s \<Rightarrow> Unmarshal_members kvs (j\<lparr>ID := Some s\<rparr>)
         | _ \<Rightarrow> Inl (errorString
                  ''json: cannot unmarshal value into Go struct field Job.ID of type string''))
      else if EqualFold k ''Meta'' then
        (case v of
           JNull \<Rightarrow> Unmarshal_members kvs (j\<lparr>Meta := None\<rparr>)
         | JObject ms \<Rightarrow>
             (case Unmarshal_Meta ms (case Meta j of None \<Rightarrow> [] | Some m \<Rightarrow> m) of
                Inl e \<Rightarrow> Inl e
              | Inr m \<Rightarrow> Unmarshal_members kvs (j\<lparr>Meta := Some m\<rparr>))
         | _ \<Rightarrow> Inl (errorString
                  ''json: cannot unmarshal value into Go struct field Job.Meta of type map[string]string''))
      else Unmarshal_members kvs j)"

definition Unmarshal_Job :: "json \<Rightarrow> err + Job" where
  "Unmarshal_Job d =
     (case d of
        JObject kvs \<Rightarrow> Unmarshal_members kvs \<lparr>ID = None, Meta = None\<rparr>
      | JNull \<Rightarrow> Inr \<lparr>ID = None, Meta = None\<rparr>
      | _ \<Rightarrow> Inl (errorString ''json: cannot unmarshal value into Go value of type api.Job''))"

text \<open>An exchange in which the webhook answers with two errors and one warning.\<close>

definition validator_scenario_io :: "(Job, bytes) validator_io" where
  "validator_scenario_io =
     \<lparr>Marshal_Payload = (\<lambda>p. Inr ''{}''),
      NewRequest_check = (\<lambda>m url. None),
      Do = (\<lambda>req. Inr ''{}''),
      Decode_validation = (\<lambda>body. Inr \<lparr>validation_Errors = [''bad'', ''worse''],
                                          validation_Warnings = [''cpu low'']\<rparr>)\<rparr>"

subsection \<open>Webhook mutator (JSON-Patch)\<close>

record jsonPatchWebhookResponse =
  Patch :: "json list"
  patch_Warnings :: "string list"
  patch_Errors :: "string list"

text \<open>
  Beyond the exchange itself the mutator calls \<open>fmt.Errorf(warning)\<close> (the warning is
  the format string: \<open>Sprintf\<close> is the text it formats to), the JSON-Patch library
  (\<open>DecodePatch\<close> of the re-encoded patch, \<open>Apply\<close>) and \<open>json.Unmarshal\<close> into a job.
\<close>

record ('job, 'd, 'p) mutator_io = "('job, 'd) webhook_io" +
  Decode_patchResponse :: "bytes \<Rightarrow> err + jsonPatchWebhookResponse"
  Sprintf :: "string \<Rightarrow> string"
  DecodePatch :: "json list \<Rightarrow> err + 'p"
  Apply :: "'p \<Rightarrow> 'd \<Rightarrow> err + 'd"
  Unmarshal :: "'d \<Rightarrow> err + 'job"

text \<open>
  \<open>Mutate\<close> returns (job, warnings, error).  Both debug lines read \<open>payload.Job.ID\<close>
  and panic on a nil job.
\<close>

definition Mutate :: "('job, 'd, 'p) mutator_io \<Rightarrow> webhook_stage \<Rightarrow> 'job Payload
    \<Rightarrow> ('job option \<times> err list \<times> err option) outcome" where
  "Mutate io j payload =
     (case Marshal_Payload io payload of
        Inl e \<Rightarrow> Returned (None, [], Some e)
      | Inr jobJson \<Rightarrow>
     (case NewRequest io (stage_method j) (endpoint j) jobJson of
        Inl e \<Rightarrow> Returned (None, [], Some e)
      | Inr req \<Rightarrow>
     (case Do io (context_headers (Payload_Context payload) req) of
        Inl e \<Rightarrow> Returned (None, [], Some e)
      | Inr body \<Rightarrow>
     (case Decode_patchResponse io body of
        Inl e \<Rightarrow> Returned (None, [], Some e)
      | Inr patchResponse \<Rightarrow>
          if length (patch_Warnings patchResponse) > 0 \<and> Job payload = None then Panic
          else
            (let warnings = map (\<lambda>warning. errorString (Sprintf io warning))
                               (patch_Warnings patchResponse)
             in case DecodePatch io (Patch patchResponse) of
                  Inl e \<Rightarrow> Returned (None, [], Some e)
                | Inr patch \<Rightarrow>
                    (case Job payload of
                       None \<Rightarrow> Panic
                     | Some job \<Rightarrow>
                         (case Apply io patch jobJson of
                            Inl e \<Rightarrow> Returned (None, [], Some e)
                          | Inr patchedJobJson \<Rightarrow>
                              (case Unmarshal io patchedJobJson of
                                 Inl e \<Rightarrow> Returned (None, [], Some e)
                               | Inr patchedJob \<Rightarrow>
                                   Returned (Some patchedJob, warnings, None)))))))))"

text \<open>What the specification says instead: the patch is applied to the JSON encoding of
  the payload's job.  \<open>Marshal_job\<close> is \<open>json.Marshal\<close> of a job.\<close>

definition spec_Mutate :: "('job, 'd, 'p) mutator_io \<Rightarrow> ('job \<Rightarrow> 'd) \<Rightarrow> webhook_stage
    \<Rightarrow> 'job Payload \<Rightarrow> ('job option \<times> err list \<times> err option) outcome" where
  "spec_Mutate io Marshal_job j payload =
     (case Marshal_Payload io payload of
        Inl e \<Rightarrow> Returned (None, [], Some e)
      | Inr body_json \<Rightarrow>
     (case NewRequest io (stage_method j) (endpoint j) body_json of
        Inl e \<Rightarrow> Returned (None, [], Some e)
      | Inr req \<Rightarrow>
     (case Do io (context_headers (Payload_Context payload) req) of
        Inl e \<Rightarrow> Returned (None, [], Some e)
      | Inr body \<Rightarrow>
     (case Decode_patchResponse io body of
        Inl e \<Rightarrow> Returned (None, [], Some e)
      | Inr patchResponse \<Rightarrow>
          (case DecodePatch io (Patch patchResponse) of
             Inl e \<Rightarrow> Returned (None, [], Some e)
           | Inr patch \<Rightarrow>
               (case Job payload of
                  None \<Rightarrow> Panic
                | Some job \<Rightarrow>
                    (case Apply io patch (Marshal_job job) of
                       Inl e \<Rightarrow> Returned (None, [], Some e)
                     | Inr patchedJobJson \<Rightarrow>
                         (case Unmarshal io patchedJobJson of
                            Inl e \<Rightarrow> Returned (None, [], Some e)
                          | Inr patchedJob \<Rightarrow>
                              Returned (Some patchedJob,
                                map (\<lambda>warning. errorString (Sprintf io warning))
                                  (patch_Warnings patchResponse), None)))))))))"

subsection \<open>An instance of the JSON-Patch library: \<open>add\<close> on object members\<close>

text \<open>
  RFC 6902 \<open>add\<close> as the library applies it to an object: the path is split at
  \<open>/\<close>, all segments but the last lead through members down to the target object, and
  the last segment is set there (added, or replaced when present).  This instance knows no
  other operation and no array.
\<close>

fun set_member :: "string \<Rightarrow> json \<Rightarrow> (string \<times> json) list \<Rightarrow> (string \<times> json) list" where
  "set_member k v [] = [(k, v)]"
| "set_member k v ((k', v') # kvs) =
     (if k = k' then (k, v) # kvs else (k', v') # set_member k v kvs)"

fun add_at :: "string list \<Rightarrow> json \<Rightarrow> json \<Rightarrow> err + json" where
  "add_at [key] v (JObject kvs) = Inr (JObject (set_member key v kvs))"
| "add_at (part # rest) v (JObject kvs) =
     (case map_of kvs part of
        None \<Rightarrow> Inl (errorString ''add operation does not apply: doc is missing path'')
      | Some child \<Rightarrow>
          (case add_at rest v child of
             Inl e \<Rightarrow> Inl e
           | Inr child' \<Rightarrow> Inr (JObject (set_member part child' kvs))))"
| "add_at parts v d = Inl (errorString ''add operation does not apply: doc is missing path'')"

fun DecodePatch_json :: "json list \<Rightarrow> err + (string \<times> json) list list" where
  "DecodePatch_json [] = Inr []"
| "DecodePatch_json (JObject kvs # ops) =
     (case DecodePatch_json ops of Inl e \<Rightarrow> Inl e | Inr ps \<Rightarrow> Inr (kvs # ps))"
| "DecodePatch_json (v # ops) =
     Inl (errorString ''json: cannot unmarshal value into Go value of type jsonpatch.Operation'')"

fun Apply_json :: "(string \<times> json) list list \<Rightarrow> json \<Rightarrow> err + json" where
  "Apply_json [] d = Inr d"
| "Apply_json (operation # ops) d =
     (case (map_of operation ''op'', map_of operation ''path'', map_of operation ''value'') of
        (Some (JString kind), Some (JString path), Some v) \<Rightarrow>
          (if kind = ''add''
           then (case add_at (tl (Split path CHR ''/'')) v d of
                   Inl e \<Rightarrow> Inl e
                 | Inr d' \<Rightarrow> Apply_json ops d')
           else Inl (errorString (''Unexpected kind: '' @ kind)))
      | _ \<Rightarrow> Inl (errorString ''missing op, path or value''))"

text \<open>
  The exchange of the specification's JSON-Patch scenario: the webhook answers
  \<^verbatim>\<open>{"patch":[{"op":"add","path":"/Meta","value":{"foo":"bar"}}]}\<close>.
\<close>

definition patch_scenario_reply :: jsonPatchWebhookResponse where
  "patch_scenario_reply =
     \<lparr>Patch = [JObject [(''op'', JString ''add''), (''path'', JString ''/Meta''),
                       (''value'', JObject [(''foo'', JString ''bar'')])]],
      patch_Warnings = [], patch_Errors = []\<rparr>"

definition patch_scenario_io :: "(Job, json, (string \<times> json) list list) mutator_io" where
  "patch_scenario_io =
     \<lparr>Marshal_Payload = (\<lambda>p. Inr (Marshal_Payload_json p)),
      NewRequest_check = (\<lambda>m url. None),
      Do = (\<lambda>req. Inr []),
      Decode_patchResponse = (\<lambda>body. Inr patch_scenario_reply),
      Sprintf = (\<lambda>format. format),
      DecodePatch = DecodePatch_json,
      Apply = Apply_json,
      Unmarshal = Unmarshal_Job\<rparr>"

section \<open>The proxy\<close>

subsection \<open>Envelopes, collaborators and effects\<close>

text \<open>
  The request envelopes (\<open>JobRegisterRequest\<close>, \<open>JobPlanRequest\<close>,
  \<open>JobValidateRequest\<close>) carry a job pointer and fields the proxy never reads; the
  register and plan responses carry \<open>Warnings\<close>, the validate response also
  \<open>ValidationErrors\<close> and \<open>Error\<close>.
\<close>

record 'job envelope =
  envelope_Job :: "'job option"
  envelope_fields :: string

record JobResponse =
  Warnings :: string
  response_fields :: string

record JobValidateResponse =
  ValidationErrors :: "string list"
  validate_Error :: string
  validate_Warnings :: string
  DriverConfigValidated :: bool

record url =
  url_Scheme :: string
  url_Host :: string
  url_Path :: string

text \<open>\<open>URL.String\<close> of an address with scheme and host and a path that needs no escaping.\<close>

definition String :: "url \<Rightarrow> string" where
  "String u = url_Scheme u @ ''://'' @ url_Host u @ url_Path u"

text \<open>
  Everything the proxy calls outside the repository: the standard library's JSON codec at
  each envelope type, gzip, the host part of \<open>net.SplitHostPort\<close>, the check of
  \<open>http.NewRequest\<close>, the HTTP exchange of the token resolver (\<open>client.Do\<close>), the
  upstream's answer to a forwarded request, the path the reverse proxy's director gives the
  outgoing request (the request's path joined to the target's), and the orchestrator's
  helper \<open>MergeMultierrorWarnings\<close>.  \<open>gzip_NewReader\<close> gives the decompressed stream.
\<close>

record 'job env =
  SplitHostPort :: "string \<Rightarrow> string"
  token_NewRequest_check :: "string \<Rightarrow> string \<Rightarrow> err option"
  client_Do :: "bytes out_request \<Rightarrow> err + reply"
  Decode_ACLToken :: "bytes \<Rightarrow> err + ACLToken"
  Director_Path :: "string \<Rightarrow> string"
  Upstream :: "request \<Rightarrow> err + reply"
  Decode_JobRegisterRequest :: "bytes \<Rightarrow> err + 'job envelope"
  Decode_JobPlanRequest :: "bytes \<Rightarrow> err + 'job envelope"
  Decode_JobValidateRequest :: "bytes \<Rightarrow> err + 'job envelope"
  Marshal_JobRegisterRequest :: "'job envelope \<Rightarrow> err + bytes"
  Marshal_JobPlanRequest :: "'job envelope \<Rightarrow> err + bytes"
  Marshal_JobValidateRequest :: "'job envelope \<Rightarrow> err + bytes"
  Decode_JobRegisterResponse :: "bytes \<Rightarrow> err + JobResponse"
  Decode_JobPlanResponse :: "bytes \<Rightarrow> err + JobResponse"
  Decode_JobValidateResponse :: "bytes \<Rightarrow> err + JobValidateResponse"
  Marshal_JobRegisterResponse :: "JobResponse \<Rightarrow> err + bytes"
  Marshal_JobPlanResponse :: "JobResponse \<Rightarrow> err + bytes"
  Marshal_JobValidateResponse :: "JobValidateResponse \<Rightarrow> err + bytes"
  gzip_NewReader :: "bytes \<Rightarrow> err + bytes"
  gzip_Write :: "bytes \<Rightarrow> bytes"
  MergeMultierrorWarnings :: "err list \<Rightarrow> string"

text \<open>
  The admission pipeline (\<open>admissionctrl.JobHandler\<close>) is not among the sources: the
  handlers are stated for every behaviour of the four methods they call.
\<close>

record 'job JobHandler =
  ResolveToken :: bool
  ApplyAdmissionControllers :: "'job Payload \<Rightarrow> 'job option \<times> err list \<times> err option"
  AdmissionMutators :: "'job Payload \<Rightarrow> 'job option \<times> err list \<times> err option"
  AdmissionValidators :: "'job Payload \<Rightarrow> err list \<times> err option"

text \<open>
  What a request leaves behind, in order: log lines (level, message, key/value pairs), the
  token resolver's call and the forwarded request.
\<close>

datatype event =
  Log string string "(string \<times> string) list"
  | TokenRequest "bytes out_request"
  | Forward request

text \<open>What the client gets: the proxied response, the 500 of \<open>writeError\<close>, the reverse
  proxy's own 502 (its error handler), or a dropped connection after a panic.\<close>

datatype client_result =
  Proxied response | WriteError nat string | BadGateway | Aborted

subsection \<open>Request context and token resolution\<close>

definition getClientIP :: "'job env \<Rightarrow> request \<Rightarrow> string" where
  "getClientIP env r =
     (let forwarded = Get (Header r) ''X-Forwarded-For''
      in if forwarded \<noteq> []
         then (case Split forwarded CHR '','' of [] \<Rightarrow> [] | first # rest \<Rightarrow> first)
         else SplitHostPort env (RemoteAddr r))"

text \<open>\<open>client_Do\<close> is the client on the proxy's transport (the default client when there
  is none).\<close>

definition resolveTokenAccessor :: "'job env \<Rightarrow> url \<Rightarrow> string
    \<Rightarrow> (ACLToken option \<times> err option) \<times> event list" where
  "resolveTokenAccessor env nomadAddress token =
     (if token = [] then ((None, None), [])
      else
        (let selfURL = nomadAddress\<lparr>url_Path := ''/v1/acl/token/self''\<rparr>
         in case token_NewRequest_check env ''GET'' (String selfURL) of
              Some e \<Rightarrow> ((None, Some e), [])
            | None \<Rightarrow>
                (let req = \<lparr>out_Method = ''GET'', out_URL = String selfURL,
                            out_Header = [''X-Nomad-Token'' \<mapsto> token], out_Body = []\<rparr>
                 in case client_Do env req of
                      Inl e \<Rightarrow> ((None, Some e), [TokenRequest req])
                    | Inr resp \<Rightarrow>
                        if StatusCode resp \<noteq> 200
                        then ((None, Some (errorString (''unexpected status code: '' @ Status resp))),
                              [TokenRequest req])
                        else (case Decode_ACLToken env (resp_Body resp) of
                                Inl e \<Rightarrow> ((None, Some e), [TokenRequest req])
                              | Inr aclToken \<Rightarrow> ((Some aclToken, None), [TokenRequest req])))))"

subsection \<open>Request rewriting\<close>

definition rewriteRequest :: "request \<Rightarrow> bytes \<Rightarrow> request" where
  "rewriteRequest r data = r\<lparr>ContentLength := int (length data), Body := data\<rparr>"

definition handleRegister :: "'job env \<Rightarrow> 'job JobHandler \<Rightarrow> request
    \<Rightarrow> (request \<times> err option) \<times> event list" where
  "handleRegister env jobHandler r =
     (case Decode_JobRegisterRequest env (Body r) of
        Inl e \<Rightarrow>
          ((r, Some (Errorf_w ''failed decoding job, skipping admission controller: '' e)), [])
      | Inr jobRegisterRequest \<Rightarrow>
          (let payload = \<lparr>Job = envelope_Job jobRegisterRequest,
                          Payload_Context = request_context (Context r)\<rparr>
           in case ApplyAdmissionControllers jobHandler payload of
                (job, warnings, Some e) \<Rightarrow>
                  ((r, Some (Errorf_w ''admission controllers send an error, returning error: '' e)),
                   [])
              | (job, warnings, None) \<Rightarrow>
                  (case Marshal_JobRegisterRequest env (jobRegisterRequest\<lparr>envelope_Job := job\<rparr>) of
                     Inl e \<Rightarrow> ((r, Some (Errorf_w ''error marshalling job: '' e)), [])
                   | Inr data \<Rightarrow>
                       (let ctx = (if length warnings > 0
                                   then (Context r)\<lparr>ctxWarnings := Some warnings\<rparr>
                                   else Context r)
                        in ((rewriteRequest (r\<lparr>Context := ctx\<rparr>) data, None),
                            [Log ''DEBUG'' ''Job after admission controllers'' [(''job'', data)]])))))"

definition handlePlan :: "'job env \<Rightarrow> 'job JobHandler \<Rightarrow> request
    \<Rightarrow> (request \<times> err option) \<times> event list" where
  "handlePlan env jobHandler r =
     (case Decode_JobPlanRequest env (Body r) of
        Inl e \<Rightarrow>
          ((r, Some (Errorf_w ''failed decoding job, skipping admission controller: '' e)), [])
      | Inr jobPlanRequest \<Rightarrow>
          (let payload = \<lparr>Job = envelope_Job jobPlanRequest,
                          Payload_Context = request_context (Context r)\<rparr>
           in case ApplyAdmissionControllers jobHandler payload of
                (job, warnings, Some e) \<Rightarrow>
                  ((r, Some (Errorf_w ''admission controllers send an error, returning error: '' e)),
                   [])
              | (job, warnings, None) \<Rightarrow>
                  (case Marshal_JobPlanRequest env (jobPlanRequest\<lparr>envelope_Job := job\<rparr>) of
                     Inl e \<Rightarrow> ((r, Some (Errorf_w ''error marshalling job: '' e)), [])
                   | Inr data \<Rightarrow>
                       (let ctx = (if length warnings > 0
                                   then (Context r)\<lparr>ctxWarnings := Some warnings\<rparr>
                                   else Context r)
                        in ((rewriteRequest (r\<lparr>Context := ctx\<rparr>) data, None),
                            [Log ''DEBUG'' ''Job after admission controllers'' [(''job'', data)]])))))"

text \<open>
  \<open>handleValidate\<close>: a mutator error is returned at once; the validators' error, nil or
  not, is put on the context; the warnings are the validators' with the mutators'
  appended.
\<close>

definition handleValidate :: "'job env \<Rightarrow> 'job JobHandler \<Rightarrow> request
    \<Rightarrow> (request \<times> err option) \<times> event list" where
  "handleValidate env jobHandler r =
     (case Decode_JobValidateRequest env (Body r) of
        Inl e \<Rightarrow> ((r, Some e), [])
      | Inr jobValidateRequest \<Rightarrow>
          (let payload = \<lparr>Job = envelope_Job jobValidateRequest,
                          Payload_Context = request_context (Context r)\<rparr>
           in case AdmissionMutators jobHandler payload of
                (job, mutateWarnings, Some e) \<Rightarrow> ((r, Some e), [])
              | (job, mutateWarnings, None) \<Rightarrow>
                  (case AdmissionValidators jobHandler (payload\<lparr>Job := job\<rparr>) of
                     (validateWarnings0, err) \<Rightarrow>
                       (let ctx = (Context r)\<lparr>ctxValidationError := Some err\<rparr>;
                            validateWarnings = validateWarnings0 @ mutateWarnings
                        in case Marshal_JobValidateRequest env
                                  (jobValidateRequest\<lparr>envelope_Job := job\<rparr>) of
                             Inl e \<Rightarrow> ((r, Some e), [])
                           | Inr data \<Rightarrow>
                               (let ctx' = (if length validateWarnings > 0
                                            then ctx\<lparr>ctxWarnings := Some validateWarnings\<rparr>
                                            else ctx)
                                in ((rewriteRequest (r\<lparr>Context := ctx'\<rparr>) data, None), []))))))"

subsection \<open>Response rewriting\<close>

text \<open>
  \<open>multierror.Append(allWarnings, ...)\<close> extends \<open>allWarnings\<close> through its pointer,
  so the first call takes effect although its result is dropped.
\<close>

definition buildFullWarningMsg :: "'job env \<Rightarrow> string \<Rightarrow> err list \<Rightarrow> string" where
  "buildFullWarningMsg env upstreamResponseWarnings warnings =
     (let allWarnings0 = multierror [];
          allWarnings1 = (if upstreamResponseWarnings \<noteq> []
                          then Append (Some allWarnings0) [errorString upstreamResponseWarnings]
                          else allWarnings0);
          allWarnings = Append (Some allWarnings1) warnings
      in MergeMultierrorWarnings env [allWarnings])"

definition rewriteResponse :: "response \<Rightarrow> bytes \<Rightarrow> response" where
  "rewriteResponse resp newResponeData =
     resp\<lparr>resp_Header := (resp_Header resp)(''Content-Length'' \<mapsto> Itoa (length newResponeData)),
          resp_ContentLength := int (length newResponeData),
          resp_Body := newResponeData\<rparr>"

definition rewriteResponseGzip :: "'job env \<Rightarrow> response \<Rightarrow> bytes \<Rightarrow> response" where
  "rewriteResponseGzip env resp newResponeData =
     (let compressed = gzip_Write env newResponeData
      in resp\<lparr>resp_Header := (resp_Header resp)(''Content-Length'' \<mapsto> Itoa (length compressed)),
              resp_ContentLength := int (length compressed),
              resp_Body := compressed\<rparr>)"

definition checkIfGzipAndTransformReader :: "'job env \<Rightarrow> response \<Rightarrow> bytes
    \<Rightarrow> err + bool \<times> bytes" where
  "checkIfGzipAndTransformReader env resp reader =
     (let enc = Get (resp_Header resp) ''Content-Encoding'';
          isGzip = (enc = ''gzip'')
      in if isGzip
         then (case gzip_NewReader env (resp_Body resp) of
                 Inl e \<Rightarrow> Inl e
               | Inr gzipReader \<Rightarrow> Inr (isGzip, gzipReader))
         else Inr (isGzip, reader))"

text \<open>
  The response handlers return the error and the response as they leave it (on an error the
  reverse proxy discards the response).  The type assertion \<open>.([]error)\<close> gives the
  stored list and true, or nil and false.
\<close>

definition handRegisterResponse :: "'job env \<Rightarrow> response \<Rightarrow> err option \<times> response" where
  "handRegisterResponse env resp =
     (let (warnings, ok) = (case ctxWarnings (Context (Request resp)) of
                              None \<Rightarrow> ([], False) | Some ws \<Rightarrow> (ws, True))
      in if \<not> ok \<and> length warnings = 0 then (None, resp)
         else
           (case checkIfGzipAndTransformReader env resp (resp_Body resp) of
              Inl e \<Rightarrow> (Some e, resp)
            | Inr (isGzip, reader) \<Rightarrow>
                (case Decode_JobRegisterResponse env reader of
                   Inl e \<Rightarrow> (Some e, resp)
                 | Inr response \<Rightarrow>
                     (case Marshal_JobRegisterResponse env
                             (response\<lparr>Warnings := buildFullWarningMsg env (Warnings response) warnings\<rparr>) of
                        Inl e \<Rightarrow> (Some e, resp)
                      | Inr responeData \<Rightarrow>
                          (None, if isGzip then rewriteResponseGzip env resp responeData
                                 else rewriteResponse resp responeData)))))"

definition handleJobPlanResponse :: "'job env \<Rightarrow> response \<Rightarrow> err option \<times> response" where
  "handleJobPlanResponse env resp =
     (let (warnings, ok) = (case ctxWarnings (Context (Request resp)) of
                              None \<Rightarrow> ([], False) | Some ws \<Rightarrow> (ws, True))
      in if \<not> ok \<and> length warnings = 0 then (None, resp)
         else
           (case checkIfGzipAndTransformReader env resp (resp_Body resp) of
              Inl e \<Rightarrow> (Some e, resp)
            | Inr (isGzip, reader) \<Rightarrow>
                (case Decode_JobPlanResponse env reader of
                   Inl e \<Rightarrow> (Some e, resp)
                 | Inr response \<Rightarrow>
                     (case Marshal_JobPlanResponse env
                             (response\<lparr>Warnings := buildFullWarningMsg env (Warnings response) warnings\<rparr>) of
                        Inl e \<Rightarrow> (Some e, resp)
                      | Inr responeData \<Rightarrow>
                          (None, if isGzip then rewriteResponseGzip env resp responeData
                                 else rewriteResponse resp responeData)))))"

text \<open>
  In the validate handler the branch for an error that is not a multi-error calls
  \<open>err.Error()\<close> on the function's own \<open>err\<close>, which is nil there: a panic.
\<close>

definition embedValidationError :: "err option \<Rightarrow> JobValidateResponse
    \<Rightarrow> JobValidateResponse outcome" where
  "embedValidationError validationErr response =
     (case validationErr of
        None \<Rightarrow> Returned response
      | Some (multierror errs) \<Rightarrow>
          Returned (response\<lparr>ValidationErrors := map Error errs,
                            validate_Error := Error (multierror errs)\<rparr>)
      | Some (errorString s) \<Rightarrow> Panic)"

definition handleJobValdidateResponse :: "'job env \<Rightarrow> response
    \<Rightarrow> (err option \<times> response) outcome \<times> event list" where
  "handleJobValdidateResponse env resp =
     (let (validationErr, okErr) = (case ctxValidationError (Context (Request resp)) of
                                      Some (Some e) \<Rightarrow> (Some e, True) | _ \<Rightarrow> (None, False));
          (warnings, okWarnings) = (case ctxWarnings (Context (Request resp)) of
                                      None \<Rightarrow> ([], False) | Some ws \<Rightarrow> (ws, True))
      in if \<not> okErr \<and> \<not> okWarnings then (Returned (None, resp), [])
         else
           (case checkIfGzipAndTransformReader env resp (resp_Body resp) of
              Inl e \<Rightarrow> (Returned (Some e, resp), [])
            | Inr (isGzip, reader) \<Rightarrow>
                (case Decode_JobValidateResponse env reader of
                   Inl e \<Rightarrow> (Returned (Some e, resp), [])
                 | Inr response0 \<Rightarrow>
                     (case embedValidationError validationErr response0 of
                        Panic \<Rightarrow> (Panic, [])
                      | Returned response1 \<Rightarrow>
                          (let response =
                                 (if length warnings > 0
                                  then response1\<lparr>validate_Warnings :=
                                         buildFullWarningMsg env (validate_Warnings response1) warnings\<rparr>
                                  else response1)
                           in case Marshal_JobValidateResponse env response of
                                Inl e \<Rightarrow>
                                  (Returned (Some e, resp),
                                   [Log ''ERROR'' ''Error marshalling job'' [(''error'', Error e)]])
                              | Inr responeData \<Rightarrow>
                                  (Returned (None, if isGzip
                                                   then rewriteResponseGzip env resp responeData
                                                   else rewriteResponse resp responeData), []))))))"

subsection \<open>The handler built by \<open>NewProxyHandler\<close>\<close>

definition ModifyResponse :: "'job env \<Rightarrow> response
    \<Rightarrow> (err option \<times> response) outcome \<times> event list" where
  "ModifyResponse env resp =
     (case (if isRegister (Request resp) then (Returned (handRegisterResponse env resp), [])
            else if isPlan (Request resp) then (Returned (handleJobPlanResponse env resp), [])
            else if isValidate (Request resp) then handleJobValdidateResponse env resp
            else (Returned (None, resp), [])) of
        (Panic, evs) \<Rightarrow> (Panic, evs)
      | (Returned (Some e, resp'), evs) \<Rightarrow>
          (Returned (Some e, resp'),
           evs @ [Log ''ERROR'' ''Preparing response failed'' [(''error'', Error e)]])
      | (Returned (None, resp'), evs) \<Rightarrow> (Returned (None, resp'), evs))"

text \<open>
  \<open>proxy.ServeHTTP\<close> of the standard library's reverse proxy with the hooks set above:
  the director rewrites the outgoing copy of the request (the context stays with it),
  the request is sent, and the response hook sees the answer with that outgoing request.
  A failed exchange or an error from the hook ends in the proxy's 502; a panic in the hook
  drops the connection.
\<close>

definition ServeHTTP :: "'job env \<Rightarrow> request \<Rightarrow> client_result \<times> event list" where
  "ServeHTTP env r =
     (let outreq = r\<lparr>URL_Path := Director_Path env (URL_Path r)\<rparr>
      in case Upstream env outreq of
           Inl e \<Rightarrow> (BadGateway, [Forward outreq])
         | Inr rep \<Rightarrow>
             (case ModifyResponse env (reply.extend rep (response.fields outreq)) of
                (Panic, evs) \<Rightarrow> (Aborted, Forward outreq # evs)
              | (Returned (Some e, resp), evs) \<Rightarrow> (BadGateway, Forward outreq # evs)
              | (Returned (None, resp), evs) \<Rightarrow> (Proxied resp, Forward outreq # evs)))"

definition writeError :: "err \<Rightarrow> client_result" where
  "writeError e = WriteError 500 (Error e)"

text \<open>
  The returned handler, in two parts: building the request context (with the token
  resolution), then everything from the "Request received" log line on.
\<close>

definition buildRequestContext :: "'job env \<Rightarrow> url \<Rightarrow> 'job JobHandler \<Rightarrow> request
    \<Rightarrow> RequestContext \<times> event list" where
  "buildRequestContext env nomadAddress jobHandler r =
     (let reqCtx = \<lparr>ClientIP = getClientIP env r, AccessorID = [], TokenInfo = None\<rparr>;
          token = Get (Header r) ''X-Nomad-Token''
      in if ResolveToken jobHandler
         then (case resolveTokenAccessor env nomadAddress token of
                 ((tokenInfo, err), calls) \<Rightarrow>
                   (case tokenInfo of
                      Some t \<Rightarrow> reqCtx\<lparr>AccessorID := ACLToken_AccessorID t, TokenInfo := Some t\<rparr>
                    | None \<Rightarrow> reqCtx,
                    calls @ (case err of
                               Some e \<Rightarrow> [Log ''ERROR'' ''Resolving token failed'' [(''error'', Error e)]]
                             | None \<Rightarrow> [])))
         else (reqCtx, []))"

definition serveWithContext :: "'job env \<Rightarrow> 'job JobHandler \<Rightarrow> RequestContext \<Rightarrow> request
    \<Rightarrow> client_result \<times> event list" where
  "serveWithContext env jobHandler reqCtx r0 =
     (let received =
            Log ''INFO'' ''Request received''
              ([(''path'', URL_Path r0), (''method'', Method r0), (''clientIP'', ClientIP reqCtx)]
               @ (if TokenInfo reqCtx \<noteq> None then [(''accessorID'', AccessorID reqCtx)] else []));
          r = r0\<lparr>Context := (Context r0)\<lparr>request_context := Some reqCtx\<rparr>\<rparr>
      in case (if isRegister r then handleRegister env jobHandler r
               else if isPlan r then handlePlan env jobHandler r
               else if isValidate r then handleValidate env jobHandler r
               else ((r, None), [])) of
           ((r', Some e), evs) \<Rightarrow>
             (writeError e,
              received # evs
              @ [Log ''WARN'' ''Error applying admission controllers'' [(''error'', Error e)]])
         | ((r', None), evs) \<Rightarrow>
             (case ServeHTTP env r' of (res, evs') \<Rightarrow> (res, received # evs @ evs')))"

definition NewProxyHandler :: "url \<Rightarrow> 'job JobHandler \<Rightarrow> 'job env \<Rightarrow> request
    \<Rightarrow> client_result \<times> event list" where
  "NewProxyHandler nomadAddress jobHandler env r =
     (case buildRequestContext env nomadAddress jobHandler r of
        (reqCtx, evs) \<Rightarrow>
          (case serveWithContext env jobHandler reqCtx r of
             (res, evs') \<Rightarrow> (res, evs @ evs')))"

text \<open>The label the handler's chain of tests gives a request.\<close>

datatype route = Register | Plan | Validate_route | Passthrough

definition classify :: "request \<Rightarrow> route" where
  "classify r =
     (if isRegister r then Register
      else if isPlan r then Plan
      else if isValidate r then Validate_route
      else Passthrough)"

fun is_Forward :: "event \<Rightarrow> bool" where
  "is_Forward (Forward r) = True"
| "is_Forward e = False"

subsection \<open>An instance of the collaborators\<close>

text \<open>
  An instance of the orchestrator's helper in the format of its library: the errors,
  flattened, under the heading \<open>n warning(s):\<close>, one bullet each; the empty string when
  there are none.
\<close>

definition nomad_MergeMultierrorWarnings :: "err list \<Rightarrow> string" where
  "nomad_MergeMultierrorWarnings errs =
     (let es = concat (map flatten errs)
      in if es = [] then []
         else Itoa (length es) @ '' warning(s):'' @ [CHR 0x0A]
              @ concat (map (\<lambda>e. [CHR 0x0A] @ ''* '' @ Error e) es))"

text \<open>
  A small world to run the handlers in.  Jobs are their own encoding; a response document
  is the text of its warnings (register, plan), or error, validation errors and warnings
  between bars (validate, decoded with all three empty but the warnings); a compressed
  stream is \<open>GZ\<close> followed by the plain bytes.  The upstream answers every request with
  200 and the body \<open>existing\<close>.
\<close>

definition demo_gunzip :: "bytes \<Rightarrow> err + bytes" where
  "demo_gunzip b = (if take 2 b = ''GZ'' then Inr (drop 2 b)
                    else Inl (errorString ''gzip: invalid header''))"

definition demo_env :: "bytes env" where
  "demo_env =
     \<lparr>SplitHostPort = (\<lambda>addr. takeWhile (\<lambda>c. c \<noteq> CHR '':'') addr),
      token_NewRequest_check = (\<lambda>m u. None),
      client_Do = (\<lambda>req. Inr \<lparr>StatusCode = 403, Status = ''403 Forbidden'',
                                resp_Header = Map.empty, resp_Body = [], resp_ContentLength = 0\<rparr>),
      Decode_ACLToken = (\<lambda>b. Inr \<lparr>ACLToken_AccessorID = b, ACLToken_fields = []\<rparr>),
      Director_Path = (\<lambda>p. p),
      Upstream = (\<lambda>r. Inr \<lparr>StatusCode = 200, Status = ''200 OK'', resp_Header = Map.empty,
                             resp_Body = ''existing'', resp_ContentLength = 8\<rparr>),
      Decode_JobRegisterRequest = (\<lambda>b. Inr \<lparr>envelope_Job = Some b, envelope_fields = []\<rparr>),
      Decode_JobPlanRequest = (\<lambda>b. Inr \<lparr>envelope_Job = Some b, envelope_fields = []\<rparr>),
      Decode_JobValidateRequest = (\<lambda>b. Inr \<lparr>envelope_Job = Some b, envelope_fields = []\<rparr>),
      Marshal_JobRegisterRequest = (\<lambda>e. Inr (case envelope_Job e of None \<Rightarrow> ''null'' | Some j \<Rightarrow> j)),
      Marshal_JobPlanRequest = (\<lambda>e. Inr (case envelope_Job e of None \<Rightarrow> ''null'' | Some j \<Rightarrow> j)),
      Marshal_JobValidateRequest = (\<lambda>e. Inr (case envelope_Job e of None \<Rightarrow> ''null'' | Some j \<Rightarrow> j)),
      Decode_JobRegisterResponse = (\<lambda>b. Inr \<lparr>Warnings = b, response_fields = []\<rparr>),
      Decode_JobPlanResponse = (\<lambda>b. Inr \<lparr>Warnings = b, response_fields = []\<rparr>),
      Decode_JobValidateResponse =
        (\<lambda>b. Inr \<lparr>ValidationErrors = [], validate_Error = [], validate_Warnings = b,
                  DriverConfigValidated = True\<rparr>),
      Marshal_JobRegisterResponse = (\<lambda>x. Inr (Warnings x)),
      Marshal_JobPlanResponse = (\<lambda>x. Inr (Warnings x)),
      Marshal_JobValidateResponse =
        (\<lambda>v. Inr (validate_Error v @ ''|'' @ Join (ValidationErrors v) '','' @ ''|''
                  @ validate_Warnings v)),
      gzip_NewReader = demo_gunzip,
      gzip_Write = (\<lambda>d. ''GZ'' @ d),
      MergeMultierrorWarnings = nomad_MergeMultierrorWarnings\<rparr>"

text \<open>A pipeline whose mutators warn \<open>m1\<close> and whose validators warn \<open>v1\<close>, and one
  whose stages fail with the multi-error of \<open>bad\<close>.\<close>

definition warning_handler :: "bytes JobHandler" where
  "warning_handler =
     \<lparr>ResolveToken = True,
      ApplyAdmissionControllers = (\<lambda>p. (Job p, [errorString ''m1'', errorString ''v1''], None)),
      AdmissionMutators = (\<lambda>p. (Job p, [errorString ''m1''], None)),
      AdmissionValidators = (\<lambda>p. ([errorString ''v1''], None))\<rparr>"

definition failing_handler :: "bytes JobHandler" where
  "failing_handler =
     \<lparr>ResolveToken = False,
      ApplyAdmissionControllers = (\<lambda>p. (Job p, [], Some (multierror [errorString ''bad'']))),
      AdmissionMutators = (\<lambda>p. (Job p, [], None)),
      AdmissionValidators = (\<lambda>p. ([], Some (multierror [errorString ''bad''])))\<rparr>"

definition failing_mutator_handler :: "bytes JobHandler" where
  "failing_mutator_handler =
     \<lparr>ResolveToken = False,
      ApplyAdmissionControllers = (\<lambda>p. (Job p, [], Some (errorString ''mutator down''))),
      AdmissionMutators = (\<lambda>p. (Job p, [], Some (errorString ''mutator down''))),
      AdmissionValidators = (\<lambda>p. ([], None))\<rparr>"

definition demo_request :: "string \<Rightarrow> string \<Rightarrow> request" where
  "demo_request m path =
     \<lparr>Method = m, URL_Path = path, Header = [''X-Nomad-Token'' \<mapsto> ''secret''],
      RemoteAddr = ''10.0.0.7:4711'', Body = ''job'', ContentLength = 3,
      Context = \<lparr>request_context = None, ctxWarnings = None, ctxValidationError = None\<rparr>\<rparr>"

definition demo_address :: url where
  "demo_address = \<lparr>url_Scheme = ''http'', url_Host = ''nomad:4646'', url_Path = []\<rparr>"

subsection \<open>Notions used to state the properties\<close>

text \<open>A plain error is one that is not a multi-error (what \<open>fmt.Errorf\<close> returns).\<close>

fun is_plain :: "err \<Rightarrow> bool" where
  "is_plain (errorString s) = True"
| "is_plain (multierror es) = False"

text \<open>
  A response body is the gzip stream of a document when it decompresses to the document,
  the response is still marked gzip, and both the \<open>Content-Length\<close> header and the
  \<open>ContentLength\<close> field are the length of the compressed body.
\<close>

definition gzip_body_of :: "'job env \<Rightarrow> response \<Rightarrow> bytes \<Rightarrow> bool" where
  "gzip_body_of env resp document =
     (gzip_NewReader env (resp_Body resp) = Inr document
      \<and> Get (resp_Header resp) ''Content-Encoding'' = ''gzip''
      \<and> resp_Header resp ''Content-Length'' = Some (Itoa (length (resp_Body resp)))
      \<and> resp_ContentLength resp = int (length (resp_Body resp)))"

text \<open>The request the token resolver sends.\<close>

definition token_request :: "url \<Rightarrow> string \<Rightarrow> bytes out_request" where
  "token_request nomadAddress token =
     \<lparr>out_Method = ''GET'', out_URL = String (nomadAddress\<lparr>url_Path := ''/v1/acl/token/self''\<rparr>),
      out_Header = [''X-Nomad-Token'' \<mapsto> token], out_Body = []\<rparr>"

definition demo_response :: "request \<Rightarrow> (string \<rightharpoonup> string) \<Rightarrow> bytes \<Rightarrow> response" where
  "demo_response q h b =
     \<lparr>StatusCode = 200, Status = ''200 OK'', resp_Header = h, resp_Body = b,
      resp_ContentLength = int (length b), Request = q\<rparr>"

text \<open>A gzip response to a register request with one stored warning, and the request the
  handler forwards for the validate request when the validators fail with \<open>bad\<close>.\<close>

definition gzip_demo_response :: response where
  "gzip_demo_response =
     demo_response
       ((demo_request ''PUT'' ''/v1/jobs'')
          \<lparr>Context := \<lparr>request_context = None, ctxWarnings = Some [errorString ''w1''],
                       ctxValidationError = None\<rparr>\<rparr>)
       [''Content-Encoding'' \<mapsto> ''gzip''] ''GZ''"

definition forwarded_demo_request :: request where
  "forwarded_demo_request =
     rewriteRequest
       ((demo_request ''POST'' ''/v1/validate/job'')
          \<lparr>Context := \<lparr>request_context =
                         Some \<lparr>ClientIP = ''10.0.0.7'', AccessorID = [], TokenInfo = None\<rparr>,
                       ctxWarnings = None,
                       ctxValidationError = Some (Some (multierror [errorString ''bad'']))\<rparr>\<rparr>)
       ''job''"

section \<open>Properties of the route classifier\<close>

text \<open>
  C5.  The specification's classifier intercepts every job name made of one letter
  followed by letters, digits and hyphens.  The source's second character class has no
  upper-case letter but \<open>Z\<close>: the job name \<open>a1B\<close> (a letter, a digit, an upper-case
  letter) is Register and Plan for the specification and neither for the source.
\<close>

theorem classifier_rejects_upper_case_after_digit:
  "spec_isRegister (r\<lparr>Method := ''PUT'', URL_Path := ''/v1/job/a1B''\<rparr>)
   \<and> \<not> isRegister (r\<lparr>Method := ''PUT'', URL_Path := ''/v1/job/a1B''\<rparr>)
   \<and> spec_isPlan (r\<lparr>Method := ''PUT'', URL_Path := ''/v1/job/a1B/plan''\<rparr>)
   \<and> \<not> isPlan (r\<lparr>Method := ''PUT'', URL_Path := ''/v1/job/a1B/plan''\<rparr>)"
  by (simp add: spec_isRegister_def spec_isPlan_def isRegister_def isCreate_def isUpdate_def
      isPlan_def jobPathRegex_def jobPlanPathRegex_def spec_jobPathRegex_def
      spec_jobPlanPathRegex_def Plus_def)

section \<open>Properties of the webhook stages\<close>

lemma foldl_Append_errorString:
  "foldl (\<lambda>oneError e. Append (Some oneError) [errorString e]) (multierror es0) xs
   = multierror (es0 @ map errorString xs)"
  by (induction xs arbitrary: es0) (simp_all add: Append_def)

text \<open>
  C9.  When the webhook's reply (the exchange having succeeded and the reply decoded)
  lists at least one error, \<open>Validate\<close> on a payload with a job returns no warnings and
  one multi-error with one entry per listed error, in the reply's order; the result does
  not depend on the warnings of the reply.
\<close>

theorem Validate_errors_discard_warnings:
  assumes "Marshal_Payload io payload = Inr data"
    and "NewRequest_check io (stage_method w) (endpoint w) = None"
    and "Do io (context_headers (Payload_Context payload)
               \<lparr>out_Method = stage_method w, out_URL = endpoint w, out_Header = Map.empty,
                out_Body = data\<rparr>) = Inr body"
    and "Decode_validation io body = Inr reply"
    and "validation_Errors reply \<noteq> []"
    and "Job payload \<noteq> None"
  shows "Validate io w payload
         = Returned ([], Some (multierror (map errorString (validation_Errors reply))))"
  using assms
  by (auto simp: Validate_def NewRequest_def foldl_Append_errorString)

theorem Validate_errors_discard_warnings_witness:
  "Validate validator_scenario_io
     \<lparr>endpoint = ''http://hook/validate'', stage_method = ''POST'', name = ''v''\<rparr>
     \<lparr>Job = Some \<lparr>ID = Some ''app'', Meta = None\<rparr>, Payload_Context = None\<rparr>
   = Returned ([], Some (multierror [errorString ''bad'', errorString ''worse'']))"
  using Validate_errors_discard_warnings [of validator_scenario_io
      "\<lparr>Job = Some \<lparr>ID = Some ''app'', Meta = None\<rparr>, Payload_Context = None\<rparr>" "''{}''"
      "\<lparr>endpoint = ''http://hook/validate'', stage_method = ''POST'', name = ''v''\<rparr>" "''{}''"
      "\<lparr>validation_Errors = [''bad'', ''worse''], validation_Warnings = [''cpu low'']\<rparr>"]
  by (simp add: validator_scenario_io_def)

text \<open>
  C2.  In the specification's scenario (job \<open>{"ID":"app"}\<close>, patch \<open>add /Meta\<close>) the
  mutator patches the encoding of the whole payload, whose members are \<open>job\<close> and
  \<open>context\<close>: \<open>Meta\<close> is added beside them, and the job decoded from that document has
  the new \<open>Meta\<close> and no \<open>ID\<close>.  Patching the encoding of the payload's job, as the
  specification says, keeps the \<open>ID\<close>.
\<close>

theorem Mutate_patches_the_payload_document:
  "Mutate patch_scenario_io st
     \<lparr>Job = Some \<lparr>ID = Some ''app'', Meta = None\<rparr>, Payload_Context = None\<rparr>
     = Returned (Some \<lparr>ID = None, Meta = Some [(''foo'', ''bar'')]\<rparr>, [], None)
   \<and> spec_Mutate patch_scenario_io Marshal_Job st
        \<lparr>Job = Some \<lparr>ID = Some ''app'', Meta = None\<rparr>, Payload_Context = None\<rparr>
     = Returned (Some \<lparr>ID = Some ''app'', Meta = Some [(''foo'', ''bar'')]\<rparr>, [], None)"
  by (simp add: Mutate_def spec_Mutate_def patch_scenario_io_def patch_scenario_reply_def
      NewRequest_def context_headers_def Marshal_Payload_json_def Marshal_Job_def
      Unmarshal_Job_def EqualFold_def lower_def)

section \<open>Properties of the response rewriter\<close>

lemma flatten_plain: "list_all is_plain ws \<Longrightarrow> concat (map flatten ws) = ws"
  by (induction ws) (auto elim: is_plain.elims)

lemma buildFullWarningMsg_flatten:
  "buildFullWarningMsg env up ws
   = MergeMultierrorWarnings env
       [multierror ((if up = [] then [] else [errorString up]) @ concat (map flatten ws))]"
  by (simp add: buildFullWarningMsg_def Append_def)

text \<open>
  C6.  For plain local warnings \<open>w1..wk\<close> the rewritten \<open>Warnings\<close> string is the
  orchestrator's multi-warning format applied to one multi-error whose entries are the
  upstream's warning string (one entry when it is not empty, none when it is) followed by
  \<open>w1..wk\<close>, in that order and with none left out.
\<close>

theorem buildFullWarningMsg_sequence:
  assumes "list_all is_plain ws"
  shows "buildFullWarningMsg env up ws
         = MergeMultierrorWarnings env
             [multierror ((if up = [] then [] else [errorString up]) @ ws)]"
  using assms by (simp add: buildFullWarningMsg_flatten flatten_plain)

theorem buildFullWarningMsg_sequence_witness:
  "list_all is_plain [errorString ''cpu low'', errorString ''mem low'']
   \<and> buildFullWarningMsg demo_env ''existing'' [errorString ''cpu low'', errorString ''mem low'']
     = ''3 warning(s):'' @ [CHR 0x0A, CHR 0x0A] @ ''* existing'' @ [CHR 0x0A] @ ''* cpu low''
       @ [CHR 0x0A] @ ''* mem low''
   \<and> buildFullWarningMsg demo_env [] [errorString ''cpu low'', errorString ''mem low'']
     = ''2 warning(s):'' @ [CHR 0x0A, CHR 0x0A] @ ''* cpu low'' @ [CHR 0x0A] @ ''* mem low''"
  using buildFullWarningMsg_sequence [of "[errorString ''cpu low'', errorString ''mem low'']" demo_env "''existing''"]
    buildFullWarningMsg_sequence [of "[errorString ''cpu low'', errorString ''mem low'']" demo_env "[]"]
  by (simp add: demo_env_def nomad_MergeMultierrorWarnings_def Itoa.simps digit_def)

text \<open>
  C10.  When the request's context holds no warnings, the register and the plan response
  handlers return at once with no error and the response as it came: body, headers and
  content length untouched; so does the proxy's response hook on those two routes.
\<close>

theorem no_warnings_pass_through:
  assumes "ctxWarnings (Context (Request resp)) = None"
  shows "handRegisterResponse env resp = (None, resp)
       \<and> handleJobPlanResponse env resp = (None, resp)
       \<and> (classify (Request resp) = Register \<or> classify (Request resp) = Plan
            \<longrightarrow> ModifyResponse env resp = (Returned (None, resp), []))"
  using assms
  by (auto simp: handRegisterResponse_def handleJobPlanResponse_def ModifyResponse_def
      classify_def split: if_splits)

theorem no_warnings_pass_through_witness:
  "handRegisterResponse demo_env
     (demo_response (demo_request ''PUT'' ''/v1/jobs'') [''Content-Encoding'' \<mapsto> ''gzip''] ''GZexisting'')
   = (None, demo_response (demo_request ''PUT'' ''/v1/jobs'') [''Content-Encoding'' \<mapsto> ''gzip''] ''GZexisting'')
   \<and> ModifyResponse demo_env
     (demo_response (demo_request ''PUT'' ''/v1/jobs'') [''Content-Encoding'' \<mapsto> ''gzip''] ''GZexisting'')
   = (Returned (None, demo_response (demo_request ''PUT'' ''/v1/jobs'')
                        [''Content-Encoding'' \<mapsto> ''gzip''] ''GZexisting''), [])"
  using no_warnings_pass_through [of
      "demo_response (demo_request ''PUT'' ''/v1/jobs'') [''Content-Encoding'' \<mapsto> ''gzip''] ''GZexisting''"
      demo_env]
  by (simp add: demo_response_def demo_request_def classify_def isRegister_def isCreate_def)

lemma rewriteResponseGzip_body:
  assumes "Get (resp_Header resp) ''Content-Encoding'' = ''gzip''"
    and "gzip_NewReader env (gzip_Write env d) = Inr d"
  shows "gzip_body_of env (rewriteResponseGzip env resp d) d"
  using assms by (simp add: gzip_body_of_def rewriteResponseGzip_def Let_def Get_def)

lemma checkIfGzip_gzip:
  assumes "Get (resp_Header resp) ''Content-Encoding'' = ''gzip''"
    and "gzip_NewReader env (resp_Body resp) = Inr plain"
  shows "checkIfGzipAndTransformReader env resp reader = Inr (True, plain)"
  using assms by (simp add: checkIfGzipAndTransformReader_def)

text \<open>
  C7.  For a response marked \<open>Content-Encoding: gzip\<close> whose body decompresses, on each
  of the three routes: when the decompressed bytes decode and the modified document
  encodes, the handler returns no error and a response whose body is the gzip stream of
  the modified document, with \<open>Content-Length\<close> and \<open>ContentLength\<close> the compressed
  length.  The gzip library is taken to read back what it wrote.
\<close>

theorem gzip_round_trip:
  assumes gz: "Get (resp_Header resp) ''Content-Encoding'' = ''gzip''"
    and law: "\<And>d. gzip_NewReader env (gzip_Write env d) = Inr d"
    and rd: "gzip_NewReader env (resp_Body resp) = Inr plain"
    and ws: "ctxWarnings (Context (Request resp)) = Some warnings"
  shows "(Decode_JobRegisterResponse env plain = Inr response
          \<and> Marshal_JobRegisterResponse env
               (response\<lparr>Warnings := buildFullWarningMsg env (Warnings response) warnings\<rparr>)
              = Inr modified
          \<longrightarrow> fst (handRegisterResponse env resp) = None
              \<and> gzip_body_of env (snd (handRegisterResponse env resp)) modified)
       \<and> (Decode_JobPlanResponse env plain = Inr response
          \<and> Marshal_JobPlanResponse env
               (response\<lparr>Warnings := buildFullWarningMsg env (Warnings response) warnings\<rparr>)
              = Inr modified
          \<longrightarrow> fst (handleJobPlanResponse env resp) = None
              \<and> gzip_body_of env (snd (handleJobPlanResponse env resp)) modified)
       \<and> (Decode_JobValidateResponse env plain = Inr vresponse
          \<and> ctxValidationError (Context (Request resp)) = Some verr
          \<and> embedValidationError verr vresponse = Returned vresponse1
          \<and> Marshal_JobValidateResponse env
               (if length warnings > 0
                then vresponse1\<lparr>validate_Warnings :=
                       buildFullWarningMsg env (validate_Warnings vresponse1) warnings\<rparr>
                else vresponse1) = Inr vmodified
          \<longrightarrow> (\<exists>resp'. handleJobValdidateResponse env resp = (Returned (None, resp'), [])
                       \<and> gzip_body_of env resp' vmodified))"
proof (intro conjI impI)
  assume "Decode_JobRegisterResponse env plain = Inr response
          \<and> Marshal_JobRegisterResponse env
               (response\<lparr>Warnings := buildFullWarningMsg env (Warnings response) warnings\<rparr>)
              = Inr modified"
  then have "handRegisterResponse env resp = (None, rewriteResponseGzip env resp modified)"
    using ws by (simp add: handRegisterResponse_def checkIfGzip_gzip [OF gz rd])
  then show "fst (handRegisterResponse env resp) = None"
    and "gzip_body_of env (snd (handRegisterResponse env resp)) modified"
    using rewriteResponseGzip_body [OF gz law] by simp_all
next
  assume "Decode_JobPlanResponse env plain = Inr response
          \<and> Marshal_JobPlanResponse env
               (response\<lparr>Warnings := buildFullWarningMsg env (Warnings response) warnings\<rparr>)
              = Inr modified"
  then have "handleJobPlanResponse env resp = (None, rewriteResponseGzip env resp modified)"
    using ws by (simp add: handleJobPlanResponse_def checkIfGzip_gzip [OF gz rd])
  then show "fst (handleJobPlanResponse env resp) = None"
    and "gzip_body_of env (snd (handleJobPlanResponse env resp)) modified"
    using rewriteResponseGzip_body [OF gz law] by simp_all
next
  assume a: "Decode_JobValidateResponse env plain = Inr vresponse
          \<and> ctxValidationError (Context (Request resp)) = Some verr
          \<and> embedValidationError verr vresponse = Returned vresponse1
          \<and> Marshal_JobValidateResponse env
               (if length warnings > 0
                then vresponse1\<lparr>validate_Warnings :=
                       buildFullWarningMsg env (validate_Warnings vresponse1) warnings\<rparr>
                else vresponse1) = Inr vmodified"
  have "handleJobValdidateResponse env resp
        = (Returned (None, rewriteResponseGzip env resp vmodified), [])"
  proof (cases verr)
    case None
    with a ws show ?thesis
      by (simp add: handleJobValdidateResponse_def checkIfGzip_gzip [OF gz rd])
  next
    case (Some e)
    with a ws show ?thesis
      by (simp add: handleJobValdidateResponse_def checkIfGzip_gzip [OF gz rd])
  qed
  then show "\<exists>resp'. handleJobValdidateResponse env resp = (Returned (None, resp'), [])
                       \<and> gzip_body_of env resp' vmodified"
    using rewriteResponseGzip_body [OF gz law] by simp
qed

theorem gzip_round_trip_witness:
  "fst (handRegisterResponse demo_env gzip_demo_response) = None
   \<and> gzip_body_of demo_env (snd (handRegisterResponse demo_env gzip_demo_response))
        (''1 warning(s):'' @ [CHR 0x0A, CHR 0x0A] @ ''* w1'')"
  using gzip_round_trip [of gzip_demo_response demo_env "[]" "[errorString ''w1'']"
      "\<lparr>Warnings = [], response_fields = []\<rparr>"
      "''1 warning(s):'' @ [CHR 0x0A, CHR 0x0A] @ ''* w1''"]
  by (simp add: gzip_demo_response_def demo_response_def demo_request_def demo_env_def
      demo_gunzip_def Get_def buildFullWarningMsg_def Append_def
      nomad_MergeMultierrorWarnings_def Itoa.simps digit_def)

section \<open>Properties of the handler\<close>

lemma classifier_ignores_context [simp]:
  "isRegister (r\<lparr>Context := c\<rparr>) = isRegister r"
  "isPlan (r\<lparr>Context := c\<rparr>) = isPlan r"
  "isValidate (r\<lparr>Context := c\<rparr>) = isValidate r"
  by (simp_all add: isRegister_def isCreate_def isUpdate_def isPlan_def isValidate_def)

lemma classifier_ignores_body [simp]:
  "isRegister (rewriteRequest r d) = isRegister r"
  "isPlan (rewriteRequest r d) = isPlan r"
  "isValidate (rewriteRequest r d) = isValidate r"
  by (simp_all add: isRegister_def isCreate_def isUpdate_def isPlan_def isValidate_def
      rewriteRequest_def)

lemma rewriteRequest_fields [simp]:
  "URL_Path (rewriteRequest r d) = URL_Path r"
  "Context (rewriteRequest r d) = Context r"
  "Body (rewriteRequest r d) = d"
  by (simp_all add: rewriteRequest_def)

text \<open>
  C1, as the source has it.  On the Validate route, when both phases produce warnings, the
  list put on the request's context is the validators' warnings followed by the mutators'
  warnings, each in its own order.
\<close>

theorem handleValidate_warnings_validators_first:
  assumes "Decode_JobValidateRequest env (Body r) = Inr v"
    and "AdmissionMutators jh \<lparr>Job = envelope_Job v, Payload_Context = request_context (Context r)\<rparr>
         = (job, mw, None)"
    and "AdmissionValidators jh \<lparr>Job = job, Payload_Context = request_context (Context r)\<rparr>
         = (vw, verr)"
    and "Marshal_JobValidateRequest env (v\<lparr>envelope_Job := job\<rparr>) = Inr data"
    and "mw \<noteq> []" and "vw \<noteq> []"
  shows "\<exists>r'. handleValidate env jh r = ((r', None), [])
              \<and> ctxWarnings (Context r') = Some (vw @ mw)"
  using assms by (simp add: handleValidate_def rewriteRequest_def)

theorem handleValidate_warnings_validators_first_witness:
  "\<exists>r'. handleValidate demo_env warning_handler (demo_request ''POST'' ''/v1/validate/job'')
           = ((r', None), [])
        \<and> ctxWarnings (Context r') = Some ([errorString ''v1''] @ [errorString ''m1''])"
  using handleValidate_warnings_validators_first [of demo_env
      "demo_request ''POST'' ''/v1/validate/job''"
      "\<lparr>envelope_Job = Some ''job'', envelope_fields = []\<rparr>" warning_handler
      "Some ''job''" "[errorString ''m1'']" "[errorString ''v1'']" None "''job''"]
  by (simp add: warning_handler_def demo_env_def demo_request_def)

text \<open>
  C1, as stated (mutator warnings first), fails: with the mutators warning \<open>m1\<close> and the
  validators warning \<open>v1\<close> the stored list is \<open>v1, m1\<close>.
\<close>

theorem validate_warnings_order_counterexample:
  "AdmissionMutators warning_handler \<lparr>Job = Some ''job'', Payload_Context = None\<rparr>
     = (Some ''job'', [errorString ''m1''], None)
   \<and> AdmissionValidators warning_handler \<lparr>Job = Some ''job'', Payload_Context = None\<rparr>
     = ([errorString ''v1''], None)
   \<and> ctxWarnings (Context (fst (fst (handleValidate demo_env warning_handler
        (demo_request ''POST'' ''/v1/validate/job'')))))
     = Some [errorString ''v1'', errorString ''m1'']
   \<and> ctxWarnings (Context (fst (fst (handleValidate demo_env warning_handler
        (demo_request ''POST'' ''/v1/validate/job'')))))
     \<noteq> Some ([errorString ''m1''] @ [errorString ''v1''])"
  by (simp add: handleValidate_def warning_handler_def demo_env_def demo_request_def
      rewriteRequest_def)

text \<open>
  C4.  On a Register or Plan request whose envelope decodes and on which the pipeline
  returns an error, the client gets status 500 with the error's text (after the handler's
  prefix) as body, the request is not forwarded, and after the request context has been
  built the handler does nothing but write two log lines.
\<close>

theorem register_plan_hard_error_is_500:
  assumes "(classify r = Register \<and> Decode_JobRegisterRequest env (Body r) = Inr v)
         \<or> (classify r = Plan \<and> Decode_JobPlanRequest env (Body r) = Inr v)"
    and "ApplyAdmissionControllers jh
           \<lparr>Job = envelope_Job v,
            Payload_Context = Some (fst (buildRequestContext env nomadAddress jh r))\<rparr>
         = (job, ws, Some e)"
  shows "fst (NewProxyHandler nomadAddress jh env r)
           = WriteError 500 (''admission controllers send an error, returning error: '' @ Error e)
       \<and> \<not> list_ex is_Forward (snd (NewProxyHandler nomadAddress jh env r))
       \<and> (\<exists>received failed.
             snd (NewProxyHandler nomadAddress jh env r)
             = snd (buildRequestContext env nomadAddress jh r)
               @ [Log ''INFO'' ''Request received'' received,
                  Log ''WARN'' ''Error applying admission controllers'' failed])"
proof -
  obtain reqCtx evs where b: "buildRequestContext env nomadAddress jh r = (reqCtx, evs)"
    by (cases "buildRequestContext env nomadAddress jh r")
  have noF: "\<not> list_ex is_Forward evs"
    using b
    by (auto simp: buildRequestContext_def resolveTokenAccessor_def Let_def
        split: if_splits prod.splits option.splits sum.splits)
  from assms(1) show ?thesis
  proof
    assume "classify r = Register \<and> Decode_JobRegisterRequest env (Body r) = Inr v"
    then have "isRegister r" and d: "Decode_JobRegisterRequest env (Body r) = Inr v"
      by (auto simp: classify_def split: if_splits)
    then show ?thesis
      using assms(2) b noF
      by (simp add: NewProxyHandler_def serveWithContext_def handleRegister_def writeError_def
          Errorf_w_def Let_def)
  next
    assume "classify r = Plan \<and> Decode_JobPlanRequest env (Body r) = Inr v"
    then have "\<not> isRegister r" "isPlan r" and d: "Decode_JobPlanRequest env (Body r) = Inr v"
      by (auto simp: classify_def split: if_splits)
    then show ?thesis
      using assms(2) b noF
      by (simp add: NewProxyHandler_def serveWithContext_def handlePlan_def writeError_def
          Errorf_w_def Let_def)
  qed
qed

theorem register_plan_hard_error_is_500_witness:
  "fst (NewProxyHandler demo_address failing_handler demo_env (demo_request ''PUT'' ''/v1/jobs''))
   = WriteError 500 (''admission controllers send an error, returning error: ''
                     @ Error (multierror [errorString ''bad'']))
   \<and> \<not> list_ex is_Forward
         (snd (NewProxyHandler demo_address failing_handler demo_env (demo_request ''PUT'' ''/v1/jobs'')))"
  using register_plan_hard_error_is_500 [of "demo_request ''PUT'' ''/v1/jobs''" demo_env
      "\<lparr>envelope_Job = Some ''job'', envelope_fields = []\<rparr>" failing_handler demo_address
      "Some ''job''" "[]" "multierror [errorString ''bad'']"]
  by (simp add: demo_request_def demo_env_def failing_handler_def classify_def isRegister_def
      isCreate_def)

lemma resolveTokenAccessor_cases:
  "fst (resolveTokenAccessor env a token) = (None, None) \<and> token = []
   \<or> (\<exists>e. fst (resolveTokenAccessor env a token) = (None, Some e)) \<and> token \<noteq> []
   \<or> (\<exists>t. fst (resolveTokenAccessor env a token) = (Some t, None)) \<and> token \<noteq> []"
  by (auto simp: resolveTokenAccessor_def Let_def split: option.splits sum.splits)

text \<open>
  C8.  Without the resolve-token flag the context is built with no call and no log line.
  With an empty token the resolver returns nothing and calls nothing.  With a token it
  succeeds exactly when the request can be built, the upstream answers 200 and the body
  decodes, and otherwise returns an error.  When it returns an error under the flag, the
  error is logged, \<open>AccessorID\<close> and \<open>TokenInfo\<close> stay unset, and the handler goes on
  with the request exactly as it does with that unset context.
\<close>

theorem token_resolution_never_fatal:
  shows "(\<not> ResolveToken jh \<longrightarrow>
            buildRequestContext env a jh r
            = (\<lparr>ClientIP = getClientIP env r, AccessorID = [], TokenInfo = None\<rparr>, []))
       \<and> resolveTokenAccessor env a [] = ((None, None), [])
       \<and> (token \<noteq> [] \<longrightarrow>
            ((\<exists>t. fst (resolveTokenAccessor env a token) = (Some t, None))
             = (token_NewRequest_check env ''GET'' (out_URL (token_request a token)) = None
                \<and> (\<exists>rep t. client_Do env (token_request a token) = Inr rep
                           \<and> StatusCode rep = 200
                           \<and> Decode_ACLToken env (resp_Body rep) = Inr t)))
            \<and> ((\<exists>t. fst (resolveTokenAccessor env a token) = (Some t, None))
                \<or> (\<exists>e. fst (resolveTokenAccessor env a token) = (None, Some e))))
       \<and> (ResolveToken jh
           \<and> fst (resolveTokenAccessor env a (Get (Header r) ''X-Nomad-Token'')) = (None, Some e)
           \<longrightarrow>
            buildRequestContext env a jh r
            = (\<lparr>ClientIP = getClientIP env r, AccessorID = [], TokenInfo = None\<rparr>,
               snd (resolveTokenAccessor env a (Get (Header r) ''X-Nomad-Token''))
               @ [Log ''ERROR'' ''Resolving token failed'' [(''error'', Error e)]])
            \<and> NewProxyHandler a jh env r
              = (fst (serveWithContext env jh
                        \<lparr>ClientIP = getClientIP env r, AccessorID = [], TokenInfo = None\<rparr> r),
                 snd (resolveTokenAccessor env a (Get (Header r) ''X-Nomad-Token''))
                 @ [Log ''ERROR'' ''Resolving token failed'' [(''error'', Error e)]]
                 @ snd (serveWithContext env jh
                          \<lparr>ClientIP = getClientIP env r, AccessorID = [], TokenInfo = None\<rparr> r)))"
proof (intro conjI impI)
  assume "\<not> ResolveToken jh"
  then show "buildRequestContext env a jh r
            = (\<lparr>ClientIP = getClientIP env r, AccessorID = [], TokenInfo = None\<rparr>, [])"
    by (simp add: buildRequestContext_def)
next
  show "resolveTokenAccessor env a [] = ((None, None), [])"
    by (simp add: resolveTokenAccessor_def)
next
  assume "token \<noteq> []"
  then show "(\<exists>t. fst (resolveTokenAccessor env a token) = (Some t, None))
             = (token_NewRequest_check env ''GET'' (out_URL (token_request a token)) = None
                \<and> (\<exists>rep t. client_Do env (token_request a token) = Inr rep
                           \<and> StatusCode rep = 200
                           \<and> Decode_ACLToken env (resp_Body rep) = Inr t))"
    by (auto simp: resolveTokenAccessor_def token_request_def Let_def
        split: option.splits sum.splits)
next
  assume "token \<noteq> []"
  then show "(\<exists>t. fst (resolveTokenAccessor env a token) = (Some t, None))
                \<or> (\<exists>e. fst (resolveTokenAccessor env a token) = (None, Some e))"
    using resolveTokenAccessor_cases [of env a token] by auto
next
  assume h: "ResolveToken jh
           \<and> fst (resolveTokenAccessor env a (Get (Header r) ''X-Nomad-Token'')) = (None, Some e)"
  then show b: "buildRequestContext env a jh r
            = (\<lparr>ClientIP = getClientIP env r, AccessorID = [], TokenInfo = None\<rparr>,
               snd (resolveTokenAccessor env a (Get (Header r) ''X-Nomad-Token''))
               @ [Log ''ERROR'' ''Resolving token failed'' [(''error'', Error e)]])"
    by (cases "resolveTokenAccessor env a (Get (Header r) ''X-Nomad-Token'')")
       (auto simp: buildRequestContext_def Let_def)
  show "NewProxyHandler a jh env r
              = (fst (serveWithContext env jh
                        \<lparr>ClientIP = getClientIP env r, AccessorID = [], TokenInfo = None\<rparr> r),
                 snd (resolveTokenAccessor env a (Get (Header r) ''X-Nomad-Token''))
                 @ [Log ''ERROR'' ''Resolving token failed'' [(''error'', Error e)]]
                 @ snd (serveWithContext env jh
                          \<lparr>ClientIP = getClientIP env r, AccessorID = [], TokenInfo = None\<rparr> r))"
    by (simp add: NewProxyHandler_def b split: prod.splits)
qed

theorem token_resolution_never_fatal_witness:
  "ResolveToken warning_handler
   \<and> fst (resolveTokenAccessor demo_env demo_address ''secret'')
     = (None, Some (errorString ''unexpected status code: 403 Forbidden''))
   \<and> buildRequestContext demo_env demo_address warning_handler (demo_request ''PUT'' ''/v1/jobs'')
     = (\<lparr>ClientIP = ''10.0.0.7'', AccessorID = [], TokenInfo = None\<rparr>,
        [TokenRequest (token_request demo_address ''secret''),
         Log ''ERROR'' ''Resolving token failed''
           [(''error'', ''unexpected status code: 403 Forbidden'')]])
   \<and> fst (NewProxyHandler demo_address warning_handler demo_env (demo_request ''PUT'' ''/v1/jobs''))
     = fst (serveWithContext demo_env warning_handler
              \<lparr>ClientIP = ''10.0.0.7'', AccessorID = [], TokenInfo = None\<rparr>
              (demo_request ''PUT'' ''/v1/jobs''))"
  using token_resolution_never_fatal [of warning_handler demo_env demo_address
      "demo_request ''PUT'' ''/v1/jobs''" "''secret''"
      "errorString ''unexpected status code: 403 Forbidden''"]
  by (simp add: warning_handler_def resolveTokenAccessor_def demo_env_def demo_address_def
      demo_request_def token_request_def String_def Get_def getClientIP_def Let_def)

text \<open>
  The fallback branch of the validate response handler: with a stored validation error
  that is not a multi-error and an answer that decodes, the handler panics.
\<close>

lemma validate_response_plain_error_panics:
  assumes "ctxValidationError (Context (Request resp)) = Some (Some (errorString s))"
    and "checkIfGzipAndTransformReader env resp (resp_Body resp) = Inr (isGzip, reader)"
    and "Decode_JobValidateResponse env reader = Inr response"
  shows "handleJobValdidateResponse env resp = (Panic, [])"
  using assms
  by (simp add: handleJobValdidateResponse_def embedValidationError_def split: option.splits)

text \<open>
  C3, as the source has it.  On a Validate request whose envelope decodes and re-encodes,
  whose mutators return no error and whose validators return a multi-error, the rewritten
  request is forwarded; when the upstream's answer decodes as a validate response (after
  decompression if gzip) and the modified response encodes, the client gets it with
  \<open>Error\<close> the multi-error's text and \<open>ValidationErrors\<close> the texts of its entries.
\<close>

theorem validate_validator_error_is_embedded:
  assumes route: "classify r = Validate_route"
    and fresh: "ctxWarnings (Context r) = None"
    and ctx: "reqCtx = fst (buildRequestContext env a jh r)"
    and dec: "Decode_JobValidateRequest env (Body r) = Inr v"
    and mut: "AdmissionMutators jh \<lparr>Job = envelope_Job v, Payload_Context = Some reqCtx\<rparr>
              = (job, mw, None)"
    and val: "AdmissionValidators jh \<lparr>Job = job, Payload_Context = Some reqCtx\<rparr>
              = (vw, Some (multierror es))"
    and enc: "Marshal_JobValidateRequest env (v\<lparr>envelope_Job := job\<rparr>) = Inr data"
    and fwd: "q = rewriteRequest
                    (r\<lparr>Context := (Context r)
                          \<lparr>request_context := Some reqCtx,
                           ctxValidationError := Some (Some (multierror es)),
                           ctxWarnings := (if vw @ mw \<noteq> [] then Some (vw @ mw) else None)\<rparr>\<rparr>)
                    data"
    and dir: "Director_Path env (URL_Path r) = URL_Path r"
    and up: "Upstream env q = Inr rep"
    and rd: "checkIfGzipAndTransformReader env (reply.extend rep (response.fields q))
               (resp_Body rep) = Inr (isGzip, plain)"
    and rdec: "Decode_JobValidateResponse env plain = Inr response0"
    and resp: "response = response0\<lparr>ValidationErrors := map Error es,
                                     validate_Error := Error (multierror es),
                                     validate_Warnings :=
                                       (if vw @ mw \<noteq> []
                                        then buildFullWarningMsg env (validate_Warnings response0) (vw @ mw)
                                        else validate_Warnings response0)\<rparr>"
    and renc: "Marshal_JobValidateResponse env response = Inr out"
  shows "\<exists>resp' evs. NewProxyHandler a jh env r = (Proxied resp', evs)
                    \<and> Forward q \<in> set evs
                    \<and> resp_Body resp' = (if isGzip then gzip_Write env out else out)"
proof -
  obtain evs0 where b: "buildRequestContext env a jh r = (reqCtx, evs0)"
    using ctx by (cases "buildRequestContext env a jh r") simp
  have cls: "\<not> isRegister r" "\<not> isPlan r" "isValidate r"
    using route by (auto simp: classify_def split: if_splits)
  have hv: "handleValidate env jh (r\<lparr>Context := (Context r)\<lparr>request_context := Some reqCtx\<rparr>\<rparr>)
            = ((q, None), [])"
    using dec mut val enc fresh
    by (auto simp: handleValidate_def fwd rewriteRequest_def)
  have qctx: "ctxValidationError (Context q) = Some (Some (multierror es))"
    "ctxWarnings (Context q) = (if vw @ mw \<noteq> [] then Some (vw @ mw) else None)"
    "URL_Path q = URL_Path r" "isValidate q" "\<not> isRegister q" "\<not> isPlan q"
    using cls by (simp_all add: fwd)
  have same: "q\<lparr>URL_Path := Director_Path env (URL_Path q)\<rparr> = q"
    using dir qctx(3) by simp
  let ?resp = "reply.extend rep (response.fields q)"
  have rq: "Request ?resp = q" "resp_Body ?resp = resp_Body rep"
    by (simp_all add: reply.extend_def response.fields_def reply.defs response.defs)
  have hr: "handleJobValdidateResponse env ?resp
            = (Returned (None, if isGzip then rewriteResponseGzip env ?resp out
                               else rewriteResponse ?resp out), [])"
    using rd rdec renc qctx(1,2)
    by (auto simp: handleJobValdidateResponse_def rq embedValidationError_def resp)
  have mr: "ModifyResponse env ?resp
            = (Returned (None, if isGzip then rewriteResponseGzip env ?resp out
                               else rewriteResponse ?resp out), [])"
    using qctx(4,5,6) by (simp add: ModifyResponse_def rq hr)
  have sv: "ServeHTTP env q
            = (Proxied (if isGzip then rewriteResponseGzip env ?resp out
                        else rewriteResponse ?resp out), [Forward q])"
    by (simp add: ServeHTTP_def same up mr Let_def)
  show ?thesis
    using cls
    by (auto simp: NewProxyHandler_def b serveWithContext_def hv sv Let_def
        rewriteResponseGzip_def rewriteResponse_def)
qed

theorem validate_validator_error_is_embedded_witness:
  "\<exists>resp' evs.
     NewProxyHandler demo_address failing_handler demo_env (demo_request ''POST'' ''/v1/validate/job'')
       = (Proxied resp', evs)
     \<and> Forward forwarded_demo_request \<in> set evs
     \<and> resp_Body resp' = Error (multierror [errorString ''bad'']) @ ''|bad|existing''"
  using validate_validator_error_is_embedded [of "demo_request ''POST'' ''/v1/validate/job''"
      "\<lparr>ClientIP = ''10.0.0.7'', AccessorID = [], TokenInfo = None\<rparr>"
      demo_env demo_address failing_handler
      "\<lparr>envelope_Job = Some ''job'', envelope_fields = []\<rparr>"
      "Some ''job''" "[]" "[]" "[errorString ''bad'']" "''job''" forwarded_demo_request
      "\<lparr>StatusCode = 200, Status = ''200 OK'', resp_Header = Map.empty,
        resp_Body = ''existing'', resp_ContentLength = 8\<rparr>"
      False "''existing''"
      "\<lparr>ValidationErrors = [], validate_Error = [], validate_Warnings = ''existing'',
        DriverConfigValidated = True\<rparr>"
      "\<lparr>ValidationErrors = [''bad''], validate_Error = Error (multierror [errorString ''bad'']),
        validate_Warnings = ''existing'', DriverConfigValidated = True\<rparr>"
      "Error (multierror [errorString ''bad'']) @ ''|bad|existing''"]
  by (simp add: forwarded_demo_request_def demo_request_def demo_env_def failing_handler_def
      classify_def isRegister_def isCreate_def isUpdate_def isPlan_def isValidate_def
      jobPathRegex_def jobPlanPathRegex_def Plus_def buildRequestContext_def getClientIP_def
      Get_def checkIfGzipAndTransformReader_def rewriteRequest_def Join_def
      reply.defs response.defs Let_def)

text \<open>
  C3, as stated (any stage), fails for a mutator: its error on the Validate route is
  answered with 500 and nothing is forwarded.
\<close>

theorem validate_mutator_error_counterexample:
  "classify (demo_request ''POST'' ''/v1/validate/job'') = Validate_route
   \<and> AdmissionMutators failing_mutator_handler
       \<lparr>Job = Some ''job'',
        Payload_Context = Some \<lparr>ClientIP = ''10.0.0.7'', AccessorID = [], TokenInfo = None\<rparr>\<rparr>
     = (Some ''job'', [], Some (errorString ''mutator down''))
   \<and> fst (NewProxyHandler demo_address failing_mutator_handler demo_env
            (demo_request ''POST'' ''/v1/validate/job''))
     = WriteError 500 ''mutator down''
   \<and> \<not> list_ex is_Forward
         (snd (NewProxyHandler demo_address failing_mutator_handler demo_env
                (demo_request ''POST'' ''/v1/validate/job'')))"
  by (simp add: classify_def isRegister_def isCreate_def isUpdate_def isPlan_def isValidate_def
      jobPathRegex_def jobPlanPathRegex_def Plus_def demo_request_def
      failing_mutator_handler_def NewProxyHandler_def buildRequestContext_def
      serveWithContext_def handleValidate_def demo_env_def writeError_def getClientIP_def
      Get_def Let_def)

end
